theory Spec2Isabelle
  imports Main
begin

section \<open>The static web server of src/frontend/server.js\<close>

text \<open>
  The repository is one module, \<^verbatim>\<open>src/frontend/server.js\<close>: it loads a \<^verbatim>\<open>.env\<close> file,
  builds an Express application from five layers (cors, the JSON body parser, the static
  file middleware and two GET routes), resolves the port and listens.

  What the module itself decides is embedded line by line: the order of the layers, the
  paths it joins from its own directory, and \<^verbatim>\<open>process.env.PORT || 3000\<close>.
  The packages it calls (express, cors, dotenv, Node's path and net modules) are
  dependencies that are not under \<^verbatim>\<open>src/\<close>. Their default behaviour is modelled from the
  packages' documented defaults, each definition saying so, and everything that is data of
  the machine the server runs on or of the request beyond what the model parses (the file
  system, the JSON parser's verdict on a body, the MIME table, percent-decoding, the dotfile
  rule, the comparison of validators and the parsing of byte ranges, the parser of
  \<^verbatim>\<open>.env\<close> files) is a field of the record \<open>platform\<close>, about which nothing is assumed.
\<close>

subsection \<open>File system\<close>

text \<open>
  An absolute file-system path is kept normalised, as the list of its components:
  \<^verbatim>\<open>/srv/app/server.js\<close> is \<open>[''srv'', ''app'', ''server.js'']\<close>.
  On such paths \<^verbatim>\<open>path.dirname\<close> drops the last component and \<^verbatim>\<open>path.join\<close> with
  plain component names appends them.
\<close>

type_synonym fpath = "string list"

datatype node = File string | Dir

definition path_dirname :: "fpath \<Rightarrow> fpath" where
  "path_dirname p = butlast p"

definition path_join :: "fpath \<Rightarrow> string list \<Rightarrow> fpath" where
  "path_join p names = p @ names"

subsection \<open>Requests and responses\<close>

text \<open>
  A request is its method (an upper-case token, as Node's parser delivers it), the path
  component of its URL, the media type of its Content-Type field (lower case, parameters
  dropped, as the type-is package reads it), its header fields as Node delivers them in
  \<^verbatim>\<open>req.headers\<close> (names in lower case), and its body; \<open>None\<close> is a request without
  Content-Length and Transfer-Encoding, which body-parser skips.

  Of a response the model keeps the status, the Access-Control-Allow-Origin and
  Content-Type headers, and whether the body is bytes of a file, a page the framework
  generated, or empty.
\<close>

type_synonym hdrs = "(string \<times> string) list"

record request =
  meth :: string
  pathname :: string
  media_type :: "string option"
  req_headers :: hdrs
  body :: "string option"

datatype content = Bytes string | Page | NoBody

record response =
  status :: nat
  headers :: hdrs
  content :: content

text \<open>
  A layer's handler gets the request and the headers set so far. It calls \<^verbatim>\<open>next()\<close>,
  ends the response, or calls \<^verbatim>\<open>next(err)\<close> with an error that carries a status.
\<close>

datatype outcome = Next hdrs | Done response | Fail nat hdrs

definition body_for :: "request \<Rightarrow> content \<Rightarrow> content" where
  \<comment> \<open>Node sends no body in answer to HEAD.\<close>
  "body_for req c = (if meth req = ''HEAD'' then NoBody else c)"

definition header :: "request \<Rightarrow> string \<Rightarrow> string option" where
  \<comment> \<open>\<^verbatim>\<open>req.headers[name]\<close>.\<close>
  "header req name = map_of (req_headers req) name"

definition given :: "request \<Rightarrow> string \<Rightarrow> bool" where
  \<comment> \<open>\<^verbatim>\<open>req.headers[name]\<close> read as a condition: the field is there and not empty.\<close>
  "given req name = (case header req name of None \<Rightarrow> False | Some v \<Rightarrow> v \<noteq> [])"

subsection \<open>The platform\<close>

text \<open>
  Where \<^verbatim>\<open>server.listen\<close> ends up: on a TCP port, on a pipe (a string that is not a
  number names a pipe), or with the exception Node throws for a port that is not an
  integer up to 65535.
\<close>

datatype endpoint = Tcp nat | Pipe string | BadPort

text \<open>
  Why body-parser gives a body up before it parses it: the read failed (the request was
  aborted, or its size did not match Content-Length), the body is over the limit (100kb by
  default), or its charset or content encoding is not supported.
\<close>

datatype refusal = BadRead | TooLarge | Unsupported

fun refusal_status :: "refusal \<Rightarrow> nat" where
  "refusal_status BadRead = 400"
| "refusal_status TooLarge = 413"
| "refusal_status Unsupported = 415"

text \<open>
  What send makes of a Range field: it sends the entire file (the field is not a byte
  range it understands, names several ranges, or is stale by If-Range), one part of it, or
  finds the range unsatisfiable.
\<close>

datatype ranged = Entire | Part string | Unsatisfiable

record platform =
  fs :: "fpath \<Rightarrow> node option"
    \<comment> \<open>what \<^verbatim>\<open>stat\<close> and a read find at a path: a regular file with its bytes, a directory, or nothing\<close>
  refused :: "request \<Rightarrow> string \<Rightarrow> refusal option"
    \<comment> \<open>whether, and why, body-parser gives the body of a JSON request up before parsing it\<close>
  json_ok :: "string \<Rightarrow> bool"
    \<comment> \<open>whether body-parser's strict JSON parser accepts a request body (it takes the empty
        body for an empty object)\<close>
  mime :: "string \<Rightarrow> string"
    \<comment> \<open>the Content-Type value the mime table gives for a file extension\<close>
  uri_decode :: "string \<Rightarrow> string option"
    \<comment> \<open>\<^verbatim>\<open>decodeURIComponent\<close> on a string that holds a percent sign; \<open>None\<close> when it throws\<close>
  hidden :: "string list \<Rightarrow> bool"
    \<comment> \<open>the dotfile rule of the send package, which differs between its versions: whether
        an exploded path that holds a dotfile is ignored\<close>
  precondition_failed :: "request \<Rightarrow> fpath \<Rightarrow> bool"
    \<comment> \<open>send's \<^verbatim>\<open>isPreconditionFailure\<close>: If-Match and If-Unmodified-Since against the
        ETag and the modification time of the file\<close>
  fresh :: "request \<Rightarrow> fpath \<Rightarrow> bool"
    \<comment> \<open>send's \<^verbatim>\<open>isFresh\<close>: If-None-Match and If-Modified-Since against the ETag and
        the modification time of the file\<close>
  byte_range :: "request \<Rightarrow> fpath \<Rightarrow> string \<Rightarrow> ranged"
    \<comment> \<open>what send makes of the Range field of a request for a file with these bytes\<close>
  parse_env :: "string \<Rightarrow> (string \<Rightarrow> string option)"
    \<comment> \<open>\<^verbatim>\<open>dotenv.parse\<close>: the variables a \<^verbatim>\<open>.env\<close> file defines\<close>
  listen_other :: "string \<Rightarrow> endpoint"
    \<comment> \<open>where Node's \<^verbatim>\<open>listen\<close> binds when its argument is a string that is not a plain
        decimal numeral\<close>

text \<open>
  The process: its working directory, its environment as the shell passed it, and the
  location of \<^verbatim>\<open>server.js\<close>, which is what \<^verbatim>\<open>fileURLToPath(import.meta.url)\<close> returns.
\<close>

record process =
  cwd :: fpath
  environ :: "string \<Rightarrow> string option"
  module_file :: fpath

subsection \<open>Line 11: cors()\<close>

text \<open>
  The cors package with no options (origin \<^verbatim>\<open>*\<close>, \<^verbatim>\<open>preflightContinue: false\<close>,
  \<^verbatim>\<open>optionsSuccessStatus: 204\<close>): every request gets the header; an OPTIONS request is
  answered as a preflight, with 204 and no call of \<^verbatim>\<open>next()\<close>.
\<close>

definition allow_origin :: "string \<times> string" where
  "allow_origin = (''Access-Control-Allow-Origin'', ''*'')"

definition cors :: "request \<Rightarrow> hdrs \<Rightarrow> outcome" where
  "cors req hs =
     (if meth req = ''OPTIONS''
      then Done \<lparr>status = 204, headers = hs @ [allow_origin], content = NoBody\<rparr>
      else Next (hs @ [allow_origin]))"

subsection \<open>Line 12: express.json()\<close>

text \<open>
  body-parser's JSON parser with no options: a request without a body, or whose media
  type is not \<^verbatim>\<open>application/json\<close>, is passed on untouched, whatever its method. Otherwise
  the body is read, which fails with 415 for a charset or content encoding that is not
  supported, with 413 for a body over the limit and with 400 for a read that breaks off,
  and then parsed; a body the parser rejects is \<^verbatim>\<open>next(err)\<close> with status 400.
\<close>

definition express_json :: "platform \<Rightarrow> request \<Rightarrow> hdrs \<Rightarrow> outcome" where
  "express_json plat req hs =
     (case body req of
        None \<Rightarrow> Next hs
      | Some b \<Rightarrow>
          if media_type req \<noteq> Some ''application/json'' then Next hs
          else (case refused plat req b of
                  Some r \<Rightarrow> Fail (refusal_status r) hs
                | None \<Rightarrow> if json_ok plat b then Next hs else Fail 400 hs))"

subsection \<open>Sending a file\<close>

text \<open>
  The send package streams the files, for the static middleware and for
  \<^verbatim>\<open>res.sendFile\<close> alike. Before it touches the file system it vets the exploded path:
  a NUL byte is 400, a part \<^verbatim>\<open>..\<close> between separators of either kind (its pattern
  counts the backslash as one) is 403, a path with a dotfile that the dotfile rule ignores
  is 404.
\<close>

fun split_on :: "char \<Rightarrow> string \<Rightarrow> string list" where
  "split_on d [] = [[]]"
| "split_on d (c # cs) =
     (if c = d then [] # split_on d cs
      else (case split_on d cs of
              w # ws \<Rightarrow> (c # w) # ws
            | [] \<Rightarrow> [[c]]))"

definition up_path :: "string list \<Rightarrow> bool" where
  "up_path parts = list_ex (\<lambda>s. ''..'' \<in> set (split_on (CHR 0x5C) s)) parts"

definition contains_dotfile :: "string list \<Rightarrow> bool" where
  \<comment> \<open>send's \<^verbatim>\<open>containsDotFile\<close>: a part longer than one character that starts with a dot.\<close>
  "contains_dotfile parts = list_ex (\<lambda>s. length s > 1 \<and> hd s = CHR ''.'') parts"

definition vet :: "platform \<Rightarrow> string list \<Rightarrow> nat option" where
  "vet plat parts =
     (if list_ex (\<lambda>s. CHR 0x00 \<in> set s) parts then Some 400
      else if up_path parts then Some 403
      else if contains_dotfile parts \<and> hidden plat parts then Some 404
      else None)"

fun extname :: "string \<Rightarrow> string" where
  \<comment> \<open>\<^verbatim>\<open>path.extname\<close> of a file name: from its last dot, empty when there is none,
      when the only dot is the first character, and for \<^verbatim>\<open>..\<close>.\<close>
  "extname s =
     (let r = takeWhile (\<lambda>c. c \<noteq> CHR ''.'') (rev s) in
      if s = ''..'' then []
      else if length r = length s then []
      else if length r + 1 = length s then []
      else CHR ''.'' # rev r)"

definition basename :: "fpath \<Rightarrow> string" where
  "basename p = (if p = [] then [] else last p)"

definition file_response :: "platform \<Rightarrow> request \<Rightarrow> hdrs \<Rightarrow> nat \<Rightarrow> string \<Rightarrow> string \<Rightarrow> response" where
  \<comment> \<open>Bytes of a regular file are streamed with the type looked up by the extension of
      the file's name.\<close>
  "file_response plat req hs st name bytes =
     \<lparr>status = st,
      headers = hs @ [(''Content-Type'', mime plat (extname name))],
      content = body_for req (Bytes bytes)\<rparr>"

definition is_conditional_get :: "request \<Rightarrow> bool" where
  \<comment> \<open>send's \<^verbatim>\<open>isConditionalGET\<close>.\<close>
  "is_conditional_get req =
     (given req ''if-match'' \<or> given req ''if-unmodified-since''
      \<or> given req ''if-none-match'' \<or> given req ''if-modified-since'')"

definition send_found :: "platform \<Rightarrow> request \<Rightarrow> hdrs \<Rightarrow> fpath \<Rightarrow> string \<Rightarrow> outcome" where
  \<comment> \<open>send's \<^verbatim>\<open>send(path, stat)\<close>, once the file is found, with the defaults (etag,
      lastModified and acceptRanges on): a conditional request whose precondition fails
      is the error 412, one that is fresh is answered 304 with the content headers removed
      and no body; a request with a Range field gets the part it names with 206, or the
      error 416; any other is answered 200 with the whole file. An error raised here is
      \<^verbatim>\<open>next(err)\<close>, for the static layer too (the file has been found).\<close>
  "send_found plat req hs p bytes =
     (if is_conditional_get req \<and> precondition_failed plat req p then Fail 412 hs
      else if is_conditional_get req \<and> fresh plat req p
      then Done \<lparr>status = 304, headers = hs, content = NoBody\<rparr>
      else (case (if header req ''range'' = None then Entire else byte_range plat req p bytes) of
              Unsatisfiable \<Rightarrow> Fail 416 hs
            | Part slice \<Rightarrow> Done (file_response plat req hs 206 (basename p) slice)
            | Entire \<Rightarrow> Done (file_response plat req hs 200 (basename p) bytes)))"

definition send_file :: "platform \<Rightarrow> fpath \<Rightarrow> request \<Rightarrow> hdrs \<Rightarrow> outcome" where
  \<comment> \<open>\<^verbatim>\<open>res.sendFile(absolutePath)\<close> with no callback: the whole exploded path is
      vetted (it starts with an empty part, the path being absolute); a path that is
      refused or not found is \<^verbatim>\<open>next(err)\<close> with its status, a directory (EISDIR) is
      \<^verbatim>\<open>next()\<close>.\<close>
  "send_file plat p req hs =
     (case vet plat ([] # p) of
        Some st \<Rightarrow> Fail st hs
      | None \<Rightarrow>
          (case fs plat p of
             None \<Rightarrow> Fail 404 hs
           | Some Dir \<Rightarrow> Next hs
           | Some (File bytes) \<Rightarrow> send_found plat req hs p bytes))"

subsection \<open>Line 17: express.static(root)\<close>

fun normalize_parts :: "string list \<Rightarrow> string list \<Rightarrow> string list option" where
  \<comment> \<open>\<^verbatim>\<open>path.normalize('./' + path)\<close> on the parts of the path: empty parts and
      \<^verbatim>\<open>.\<close> vanish, \<^verbatim>\<open>..\<close> drops the part before it. \<open>None\<close> when the path climbs above
      the root, which leaves a leading \<^verbatim>\<open>..\<close> that send refuses.\<close>
  "normalize_parts acc [] = Some acc"
| "normalize_parts acc (s # ss) =
     (if s = [] \<or> s = ''.'' then normalize_parts acc ss
      else if s = ''..'' then (if acc = [] then None else normalize_parts (butlast acc) ss)
      else normalize_parts (acc @ [s]) ss)"

definition trailing_slash :: "string \<Rightarrow> bool" where
  "trailing_slash p = (p \<noteq> [] \<and> last p = CHR ''/'')"

definition decode_path :: "platform \<Rightarrow> string \<Rightarrow> string option" where
  \<comment> \<open>\<^verbatim>\<open>decodeURIComponent\<close> leaves a string without percent signs as it is.\<close>
  "decode_path plat p = (if CHR ''%'' \<in> set p then uri_decode plat p else Some p)"

text \<open>What a lookup finds: a regular file (its path and its bytes), a directory, or nothing.\<close>

datatype lookup = Found fpath string | Directory | Missing

definition find_index :: "platform \<Rightarrow> fpath \<Rightarrow> lookup" where
  \<comment> \<open>A request path that ends in a slash is answered from \<^verbatim>\<open>index.html\<close> in that
      directory, when that is a regular file.\<close>
  "find_index plat dir =
     (case fs plat (dir @ [''index.html'']) of
        None \<Rightarrow> Missing
      | Some Dir \<Rightarrow> Missing
      | Some (File bytes) \<Rightarrow> Found (dir @ [''index.html'']) bytes)"

definition find_file :: "platform \<Rightarrow> fpath \<Rightarrow> bool \<Rightarrow> lookup" where
  \<comment> \<open>Any other path is looked up as it is; \<open>slash\<close> says that the decoded path ends in
      a slash, with which a regular file is ENOTDIR.\<close>
  "find_file plat p slash =
     (case fs plat p of
        None \<Rightarrow> Missing
      | Some Dir \<Rightarrow> Directory
      | Some (File bytes) \<Rightarrow> if slash then Missing else Found p bytes)"

definition relative_parts :: "string list \<Rightarrow> bool \<Rightarrow> string list" where
  \<comment> \<open>The normalised relative path, split at the separator, as the dotfile rule sees it:
      \<^verbatim>\<open>./\<close> for the root itself, an empty last part after a final slash.\<close>
  "relative_parts segs slash = (if segs = [] then [''.''] else segs) @ (if slash then [[]] else [])"

definition static_lookup :: "platform \<Rightarrow> fpath \<Rightarrow> string \<Rightarrow> lookup" where
  \<comment> \<open>What send, given a root, finds for a request path. Every refusal is \<open>Missing\<close>:
      the static middleware passes errors below 500 on with \<^verbatim>\<open>next()\<close>.\<close>
  "static_lookup plat root p =
     (case decode_path plat p of
        None \<Rightarrow> Missing
      | Some q \<Rightarrow>
          if CHR 0x00 \<in> set q then Missing
          else (case normalize_parts [] (split_on CHR ''/'' q) of
                  None \<Rightarrow> Missing
                | Some segs \<Rightarrow>
                    if vet plat (relative_parts segs (trailing_slash q)) \<noteq> None then Missing
                    else if trailing_slash p then find_index plat (root @ segs)
                    else find_file plat (root @ segs) (trailing_slash q)))"

definition express_static :: "platform \<Rightarrow> fpath \<Rightarrow> request \<Rightarrow> hdrs \<Rightarrow> outcome" where
  \<comment> \<open>serve-static with no options (\<^verbatim>\<open>fallthrough\<close> and \<^verbatim>\<open>redirect\<close> on): a method other
      than GET and HEAD, and every path send does not find, is \<^verbatim>\<open>next()\<close>; a directory
      asked for without the final slash is redirected to the path with the slash; a file
      that is found is sent.\<close>
  "express_static plat root req hs =
     (if meth req \<noteq> ''GET'' \<and> meth req \<noteq> ''HEAD'' then Next hs
      else (case static_lookup plat root (pathname req) of
              Missing \<Rightarrow> Next hs
            | Directory \<Rightarrow>
                Done \<lparr>status = 301,
                      headers = hs @ [(''Content-Type'', ''text/html; charset=UTF-8'')],
                      content = body_for req Page\<rparr>
            | Found p bytes \<Rightarrow> send_found plat req hs p bytes))"

subsection \<open>Lines 19 to 24: the router\<close>

text \<open>
  Express matches a route's path with a regular expression that ignores case and allows
  one final slash (\<^verbatim>\<open>case sensitive routing\<close> and \<^verbatim>\<open>strict routing\<close> are off by default):
  for a literal path with no parameters, \<^verbatim>\<open>/verify\<close> is \<^verbatim>\<open>^\/verify\/?$\<close> and \<^verbatim>\<open>/\<close> is
  \<^verbatim>\<open>^\/?$\<close>. A GET route also answers HEAD.
\<close>

definition lower :: "char \<Rightarrow> char" where
  "lower c =
     (case map_of (zip ''ABCDEFGHIJKLMNOPQRSTUVWXYZ'' ''abcdefghijklmnopqrstuvwxyz'') c of
        None \<Rightarrow> c
      | Some d \<Rightarrow> d)"

definition route_match :: "string \<Rightarrow> string \<Rightarrow> bool" where
  "route_match pat p =
     (let q = map lower p; t = map lower pat in
      if trailing_slash pat then q = t \<or> q = butlast t
      else q = t \<or> q = t @ ''/'')"

datatype layer_id = CorsLayer | JsonLayer | StaticLayer | RouteLayer string

record layer =
  lid :: layer_id
  accepts :: "request \<Rightarrow> bool"
  handler :: "request \<Rightarrow> hdrs \<Rightarrow> outcome"

definition app_use :: "layer_id \<Rightarrow> (request \<Rightarrow> hdrs \<Rightarrow> outcome) \<Rightarrow> layer" where
  \<comment> \<open>\<^verbatim>\<open>app.use(fn)\<close>: mounted at \<^verbatim>\<open>/\<close>, it sees every request.\<close>
  "app_use i h = \<lparr>lid = i, accepts = (\<lambda>req. True), handler = h\<rparr>"

definition app_get :: "string \<Rightarrow> (request \<Rightarrow> hdrs \<Rightarrow> outcome) \<Rightarrow> layer" where
  \<comment> \<open>\<^verbatim>\<open>app.get(path, fn)\<close>. (The router's own answer to OPTIONS on a route is left out:
      in this application cors has ended every OPTIONS request before.)\<close>
  "app_get pat h =
     \<lparr>lid = RouteLayer pat,
      accepts = (\<lambda>req. (meth req = ''GET'' \<or> meth req = ''HEAD'') \<and> route_match pat (pathname req)),
      handler = h\<rparr>"

definition finalhandler :: "request \<Rightarrow> nat \<Rightarrow> hdrs \<Rightarrow> response" where
  \<comment> \<open>Express's last resort, when no layer ended the response (404) or one passed an
      error: the status and a generated HTML page; the headers set so far stay.\<close>
  "finalhandler req st hs =
     \<lparr>status = st,
      headers = hs @ [(''Content-Type'', ''text/html; charset=utf-8'')],
      content = body_for req Page\<rparr>"

fun dispatch :: "layer list \<Rightarrow> request \<Rightarrow> hdrs \<Rightarrow> layer_id list \<times> response" where
  \<comment> \<open>The router walks its stack in the order of registration. The first component is
      the list of layers whose handler ran. No layer of this application handles errors,
      so \<^verbatim>\<open>next(err)\<close> skips all that are left.\<close>
  "dispatch [] req hs = ([], finalhandler req 404 hs)"
| "dispatch (l # ls) req hs =
     (if accepts l req
      then (case handler l req hs of
              Next hs' \<Rightarrow> (let r = dispatch ls req hs' in (lid l # fst r, snd r))
            | Done res \<Rightarrow> ([lid l], res)
            | Fail st hs' \<Rightarrow> ([lid l], finalhandler req st hs'))
      else dispatch ls req hs)"

subsection \<open>Lines 9 to 24: the application\<close>

definition server_dirname :: "process \<Rightarrow> fpath" where
  \<comment> \<open>Lines 14 and 15: \<^verbatim>\<open>__dirname = path.dirname(fileURLToPath(import.meta.url))\<close>.\<close>
  "server_dirname proc = path_dirname (module_file proc)"

definition static_root :: "process \<Rightarrow> fpath" where
  \<comment> \<open>Line 17: \<^verbatim>\<open>path.join(__dirname, "src")\<close>.\<close>
  "static_root proc = path_join (server_dirname proc) [''src'']"

definition app :: "platform \<Rightarrow> process \<Rightarrow> layer list" where
  "app plat proc =
     [app_use CorsLayer cors,
      app_use JsonLayer (express_json plat),
      app_use StaticLayer (express_static plat (static_root proc)),
      app_get ''/'' (send_file plat (path_join (server_dirname proc) [''src'', ''index.html''])),
      app_get ''/verify'' (send_file plat (path_join (server_dirname proc) [''src'', ''verify.html'']))]"

definition serve :: "platform \<Rightarrow> process \<Rightarrow> request \<Rightarrow> layer_id list \<times> response" where
  "serve plat proc req = dispatch (app plat proc) req []"

definition respond :: "platform \<Rightarrow> process \<Rightarrow> request \<Rightarrow> response" where
  "respond plat proc req = snd (serve plat proc req)"

definition ran :: "platform \<Rightarrow> process \<Rightarrow> request \<Rightarrow> layer_id list" where
  "ran plat proc req = fst (serve plat proc req)"

subsection \<open>Lines 7 and 26 to 30: the environment and the port\<close>

definition dotenv_config :: "platform \<Rightarrow> process \<Rightarrow> (string \<Rightarrow> string option)" where
  \<comment> \<open>Line 7, \<^verbatim>\<open>dotenv.config()\<close>: the file \<^verbatim>\<open>.env\<close> of the working directory, when there
      is one, adds the variables the environment does not have; it overrides none. The
      result is \<^verbatim>\<open>process.env\<close> as the rest of the module reads it.\<close>
  "dotenv_config plat proc =
     (case fs plat (cwd proc @ [''.env'']) of
        Some (File txt) \<Rightarrow> parse_env plat txt ++ environ proc
      | Some Dir \<Rightarrow> environ proc
      | None \<Rightarrow> environ proc)"

datatype jsval = Undefined | Str string | Num nat

fun truthy :: "jsval \<Rightarrow> bool" where
  "truthy Undefined = False"
| "truthy (Str s) = (s \<noteq> [])"
| "truthy (Num n) = (n \<noteq> 0)"

definition js_or :: "jsval \<Rightarrow> jsval \<Rightarrow> jsval" where
  \<comment> \<open>JavaScript's \<^verbatim>\<open>a || b\<close>: \<open>a\<close> when it is truthy, else \<open>b\<close>.\<close>
  "js_or a b = (if truthy a then a else b)"

definition env_get :: "(string \<Rightarrow> string option) \<Rightarrow> string \<Rightarrow> jsval" where
  \<comment> \<open>\<^verbatim>\<open>process.env.NAME\<close>: a string, or undefined.\<close>
  "env_get env name = (case env name of None \<Rightarrow> Undefined | Some s \<Rightarrow> Str s)"

definition PORT :: "platform \<Rightarrow> process \<Rightarrow> jsval" where
  \<comment> \<open>Line 26: \<^verbatim>\<open>const PORT = process.env.PORT || 3000\<close>.\<close>
  "PORT plat proc = js_or (env_get (dotenv_config plat proc) ''PORT'') (Num 3000)"

definition digit_of :: "char \<Rightarrow> nat option" where
  "digit_of c = map_of (zip ''0123456789'' [0, 1, 2, 3, 4, 5, 6, 7, 8, 9]) c"

fun decimal :: "nat \<Rightarrow> string \<Rightarrow> nat option" where
  \<comment> \<open>The value of a string of decimal digits, read from the left.\<close>
  "decimal n [] = Some n"
| "decimal n (c # cs) = (case digit_of c of None \<Rightarrow> None | Some d \<Rightarrow> decimal (10 * n + d) cs)"

definition tcp_port :: "nat \<Rightarrow> endpoint" where
  "tcp_port n = (if n \<le> 65535 then Tcp n else BadPort)"

definition listen :: "platform \<Rightarrow> jsval \<Rightarrow> endpoint" where
  \<comment> \<open>Lines 28 to 30, \<^verbatim>\<open>app.listen(PORT)\<close>: Node coerces a string with \<^verbatim>\<open>Number\<close>; a
      string of decimal digits is that number. With no port Node picks a free one,
      written 0.\<close>
  "listen plat v =
     (case v of
        Undefined \<Rightarrow> Tcp 0
      | Num n \<Rightarrow> tcp_port n
      | Str s \<Rightarrow>
          (case (if s = [] then None else decimal 0 s) of
             Some n \<Rightarrow> tcp_port n
           | None \<Rightarrow> listen_other plat s))"

definition bound :: "platform \<Rightarrow> process \<Rightarrow> endpoint" where
  "bound plat proc = listen plat (PORT plat proc)"

subsection \<open>A sample installation\<close>

text \<open>
  The server installed in \<^verbatim>\<open>/srv/app\<close>, with the two pages, a style sheet and a
  dotfile under \<^verbatim>\<open>src\<close>, and a \<^verbatim>\<open>.env\<close> file in \<^verbatim>\<open>/home/dev\<close>. The sample platform
  ignores every path that holds a dotfile, accepts the empty body and \<^verbatim>\<open>{}\<close> as JSON,
  refuses bodies over 100kb, knows one percent-escape, one ETag (\<^verbatim>\<open>v1\<close>, of every file) and
  one byte range. The theorems below are instantiated on it.
\<close>

definition demo_fs :: "fpath \<Rightarrow> node option" where
  "demo_fs = map_of
     [([''srv'', ''app'', ''src''], Dir),
      ([''srv'', ''app'', ''src'', ''index.html''], File ''<h1>home</h1>''),
      ([''srv'', ''app'', ''src'', ''verify.html''], File ''<h1>verify</h1>''),
      ([''srv'', ''app'', ''src'', ''css''], Dir),
      ([''srv'', ''app'', ''src'', ''css'', ''site.css''], File ''body {}''),
      ([''srv'', ''app'', ''src'', ''.secret''], File ''key''),
      ([''home'', ''dev'', ''.env''], File ''PORT=5000'')]"

definition demo :: platform where
  "demo =
     \<lparr>fs = demo_fs,
      refused = (\<lambda>req b. if 102400 < length b then Some TooLarge else None),
      json_ok = (\<lambda>b. b = [] \<or> b = ''{}''),
      mime = (\<lambda>e. if e = ''.html'' then ''text/html; charset=UTF-8''
                 else if e = ''.css'' then ''text/css; charset=UTF-8''
                 else ''application/octet-stream''),
      uri_decode = (\<lambda>s. if s = ''/css/site%2Ecss'' then Some ''/css/site.css'' else None),
      hidden = (\<lambda>parts. True),
      precondition_failed = (\<lambda>req p. given req ''if-match'' \<and> header req ''if-match'' \<noteq> Some ''v1''),
      fresh = (\<lambda>req p. header req ''if-none-match'' = Some ''v1''),
      byte_range = (\<lambda>req p bytes. if header req ''range'' = Some ''bytes=0-3''
                                   then Part (take 4 bytes) else Entire),
      parse_env = (\<lambda>txt. if txt = ''PORT=5000'' then [''PORT'' \<mapsto> ''5000''] else Map.empty),
      listen_other = Pipe\<rparr>"

definition demo_proc :: process where
  "demo_proc = \<lparr>cwd = [''tmp''], environ = Map.empty, module_file = [''srv'', ''app'', ''server.js'']\<rparr>"

definition get_req :: "string \<Rightarrow> request" where
  \<comment> \<open>A GET request with no header field and no body.\<close>
  "get_req p = \<lparr>meth = ''GET'', pathname = p, media_type = None, req_headers = [], body = None\<rparr>"

definition bad_json :: "string \<Rightarrow> string \<Rightarrow> request" where
  \<comment> \<open>A request that announces JSON and carries the body \<^verbatim>\<open>{\<close>.\<close>
  "bad_json m p =
     \<lparr>meth = m, pathname = p, media_type = Some ''application/json'',
      req_headers = [(''content-type'', ''application/json''), (''content-length'', ''1'')],
      body = Some ''{''\<rparr>"

definition carries :: "string \<times> string \<Rightarrow> outcome \<Rightarrow> bool" where
  \<comment> \<open>The headers a handler leaves behind hold \<open>h\<close>, whichever way it ends.\<close>
  "carries h out =
     (case out of
        Next hs \<Rightarrow> h \<in> set hs
      | Done res \<Rightarrow> h \<in> set (headers res)
      | Fail st hs \<Rightarrow> h \<in> set hs)"

section \<open>Properties\<close>

subsection \<open>The stack, layer by layer\<close>

lemma dispatch_use:
  "dispatch (app_use i h # ls) req hs =
     (case h req hs of
        Next hs' \<Rightarrow> (let r = dispatch ls req hs' in (i # fst r, snd r))
      | Done res \<Rightarrow> ([i], res)
      | Fail st hs' \<Rightarrow> ([i], finalhandler req st hs'))"
  by (simp add: app_use_def split: outcome.split)

lemma dispatch_get:
  "dispatch (app_get pat h # ls) req hs =
     (if (meth req = ''GET'' \<or> meth req = ''HEAD'') \<and> route_match pat (pathname req)
      then (case h req hs of
              Next hs' \<Rightarrow> (let r = dispatch ls req hs' in (RouteLayer pat # fst r, snd r))
            | Done res \<Rightarrow> ([RouteLayer pat], res)
            | Fail st hs' \<Rightarrow> ([RouteLayer pat], finalhandler req st hs'))
      else dispatch ls req hs)"
  by (simp add: app_get_def split: outcome.split)

declare dispatch.simps(2) [simp del]

text \<open>
  The JSON layer passes a request on when its body, if it is announced as JSON, is read
  and accepted.
\<close>

lemma express_json_next:
  assumes "\<And>b. body req = Some b \<Longrightarrow> media_type req = Some ''application/json''
             \<Longrightarrow> refused plat req b = None \<and> json_ok plat b"
  shows "express_json plat req hs = Next hs"
  using assms by (auto simp: express_json_def split: option.splits)

lemma express_json_fail:
  assumes "body req = Some b" and "media_type req = Some ''application/json''" and "\<not> json_ok plat b"
  shows "express_json plat req hs =
           Fail (case refused plat req b of Some r \<Rightarrow> refusal_status r | None \<Rightarrow> 400) hs"
  using assms by (simp add: express_json_def split: option.split)

lemma refusal_client_error: "400 \<le> refusal_status r \<and> refusal_status r < 500"
  by (cases r) simp_all

lemma rejected_client_error:
  "400 \<le> (case refused plat req b of Some r \<Rightarrow> refusal_status r | None \<Rightarrow> 400)
   \<and> (case refused plat req b of Some r \<Rightarrow> refusal_status r | None \<Rightarrow> 400) < 500"
  using refusal_client_error by (simp split: option.split)

text \<open>A body the JSON parser rejects ends the request in the second layer.\<close>

lemma serve_rejected:
  assumes "meth req \<noteq> ''OPTIONS''" and "body req = Some b"
    and "media_type req = Some ''application/json''" and "\<not> json_ok plat b"
  shows "serve plat proc req =
           ([CorsLayer, JsonLayer],
            finalhandler req (case refused plat req b of Some r \<Rightarrow> refusal_status r | None \<Rightarrow> 400)
              [allow_origin])"
  using assms(1) express_json_fail[OF assms(2-4)]
  by (simp add: serve_def app_def dispatch_use cors_def)

text \<open>A request with no conditional field and no Range field gets the whole file.\<close>

lemma send_found_whole:
  assumes "\<not> is_conditional_get req" and "header req ''range'' = None"
  shows "send_found plat req hs p bytes = Done (file_response plat req hs 200 (basename p) bytes)"
  using assms by (simp add: send_found_def)

text \<open>Such a GET request that passes the parser is answered by the static layer when it finds a file.\<close>

lemma serve_static_found:
  assumes "meth req = ''GET''"
    and "\<And>b. body req = Some b \<Longrightarrow> media_type req = Some ''application/json''
             \<Longrightarrow> refused plat req b = None \<and> json_ok plat b"
    and "\<not> is_conditional_get req" and "header req ''range'' = None"
    and "static_lookup plat (static_root proc) (pathname req) = Found p bytes"
  shows "serve plat proc req =
           ([CorsLayer, JsonLayer, StaticLayer],
            file_response plat req [allow_origin] 200 (basename p) bytes)"
  using assms(1,5) express_json_next[of req plat, OF assms(2)] send_found_whole[OF assms(3,4)]
  by (simp add: serve_def app_def dispatch_use cors_def express_static_def Let_def)

text \<open>When the static layer finds nothing, the two routes are tried.\<close>

lemma serve_static_missing:
  assumes "meth req = ''GET''"
    and "\<And>b. body req = Some b \<Longrightarrow> media_type req = Some ''application/json''
             \<Longrightarrow> refused plat req b = None \<and> json_ok plat b"
    and "static_lookup plat (static_root proc) (pathname req) = Missing"
  shows "serve plat proc req =
           (let r = dispatch (drop 3 (app plat proc)) req [allow_origin]
            in (CorsLayer # JsonLayer # StaticLayer # fst r, snd r))"
  using assms(1,3) express_json_next[of req plat, OF assms(2)]
  by (simp add: serve_def app_def dispatch_use cors_def express_static_def Let_def)

lemma lookup_root: "static_lookup plat root ''/'' = find_index plat root"
  by (simp add: static_lookup_def decode_path_def trailing_slash_def vet_def up_path_def
      relative_parts_def contains_dotfile_def)

lemma lookup_verify: "static_lookup plat root ''/verify'' = find_file plat (root @ [''verify'']) False"
  by (simp add: static_lookup_def decode_path_def trailing_slash_def vet_def up_path_def
      relative_parts_def contains_dotfile_def)

text \<open>
  For a path with no escape that does not end in a slash, the lookup is the file system
  at the root joined with the normalised parts of the path.
\<close>

lemma static_lookup_plain:
  assumes "CHR ''%'' \<notin> set p" and "CHR 0x00 \<notin> set p" and "\<not> trailing_slash p"
    and "normalize_parts [] (split_on CHR ''/'' p) = Some segs"
    and "vet plat segs = None" and "segs \<noteq> []"
    and "fs plat (root @ segs) = Some (File bytes)"
  shows "static_lookup plat root p = Found (root @ segs) bytes"
  using assms
  by (simp add: static_lookup_def decode_path_def relative_parts_def find_file_def)

lemma demo_root: "static_root demo_proc = [''srv'', ''app'', ''src'']"
  by (simp add: demo_proc_def static_root_def server_dirname_def path_join_def path_dirname_def)

lemma demo_lookup_css:
  "static_lookup demo (static_root demo_proc) ''/css/site.css''
     = Found [''srv'', ''app'', ''src'', ''css'', ''site.css''] ''body {}''"
proof -
  have "fs demo ([''srv'', ''app'', ''src''] @ [''css'', ''site.css'']) = Some (File ''body {}'')"
    by (simp add: demo_def demo_fs_def)
  then have "static_lookup demo [''srv'', ''app'', ''src''] ''/css/site.css''
               = Found ([''srv'', ''app'', ''src''] @ [''css'', ''site.css'']) ''body {}''"
    by (intro static_lookup_plain)
      (simp_all add: trailing_slash_def vet_def up_path_def contains_dotfile_def)
  then show ?thesis by (simp add: demo_root)
qed

lemma demo_lookup_missing:
  "static_lookup demo (static_root demo_proc) ''/missing'' = Missing"
  by (simp add: demo_root static_lookup_def decode_path_def trailing_slash_def vet_def up_path_def
      relative_parts_def contains_dotfile_def find_file_def demo_def demo_fs_def)

lemma get_req_plain:
  "\<not> is_conditional_get (get_req p) \<and> header (get_req p) ''range'' = None"
  by (simp add: is_conditional_get_def given_def header_def get_req_def)

lemma bad_json_plain:
  "\<not> is_conditional_get (bad_json m p) \<and> header (bad_json m p) ''range'' = None"
  by (simp add: is_conditional_get_def given_def header_def bad_json_def)

lemma demo_bad_json_status:
  "m \<noteq> ''OPTIONS'' \<Longrightarrow> serve demo demo_proc (bad_json m p)
     = ([CorsLayer, JsonLayer], finalhandler (bad_json m p) 400 [allow_origin])"
  using serve_rejected[of "bad_json m p" "''{''" demo demo_proc]
  by (simp add: bad_json_def demo_def)

subsection \<open>No layer drops a header\<close>

lemma carries_json: "h \<in> set hs \<Longrightarrow> carries h (express_json plat req hs)"
  by (simp add: carries_def express_json_def split: option.split)

lemma carries_send_found: "h \<in> set hs \<Longrightarrow> carries h (send_found plat req hs p bytes)"
  by (simp add: carries_def send_found_def file_response_def split: ranged.split)

lemma carries_send_file: "h \<in> set hs \<Longrightarrow> carries h (send_file plat p req hs)"
  using carries_send_found[of h hs plat req p]
  by (simp add: send_file_def carries_def split: option.split node.split)

lemma carries_static: "h \<in> set hs \<Longrightarrow> carries h (express_static plat root req hs)"
  using carries_send_found[of h hs plat req]
  by (simp add: express_static_def carries_def split: lookup.split)

lemma dispatch_carries:
  assumes "\<And>l hs. l \<in> set ls \<Longrightarrow> h \<in> set hs \<Longrightarrow> carries h (handler l req hs)"
    and "h \<in> set hs"
  shows "h \<in> set (headers (snd (dispatch ls req hs)))"
  using assms
proof (induction ls arbitrary: hs)
  case Nil
  then show ?case by (simp add: finalhandler_def)
next
  case (Cons l ls)
  show ?case
  proof (cases "accepts l req")
    case False
    then show ?thesis using Cons by (simp add: dispatch.simps(2))
  next
    case True
    have c: "carries h (handler l req hs)" using Cons.prems by simp
    show ?thesis
    proof (cases "handler l req hs")
      case (Next hs')
      then have "h \<in> set hs'" using c by (simp add: carries_def)
      then have "h \<in> set (headers (snd (dispatch ls req hs')))"
        using Cons.IH Cons.prems(1) by simp
      then show ?thesis using True Next by (simp add: dispatch.simps(2) Let_def)
    next
      case (Done res)
      then show ?thesis using True c by (simp add: dispatch.simps(2) carries_def)
    next
      case (Fail st hs')
      then show ?thesis using True c by (simp add: dispatch.simps(2) carries_def finalhandler_def)
    qed
  qed
qed

subsection \<open>C1: the root page\<close>

text \<open>
  C1, as the code has it: a GET request for \<^verbatim>\<open>/\<close> whose body, if it is announced as
  JSON, is read and accepted by the JSON parser, and which carries no conditional field
  (If-Match, If-Unmodified-Since, If-None-Match, If-Modified-Since) and no Range field, is
  answered with status 200 and the bytes of \<^verbatim>\<open>index.html\<close> under the static root,
  provided that file is a regular file there.
\<close>

theorem get_root_index:
  assumes "meth req = ''GET''" and "pathname req = ''/''"
    and "\<And>b. body req = Some b \<Longrightarrow> media_type req = Some ''application/json''
             \<Longrightarrow> refused plat req b = None \<and> json_ok plat b"
    and "\<not> is_conditional_get req" and "header req ''range'' = None"
    and "fs plat (path_join (static_root proc) [''index.html'']) = Some (File bytes)"
  shows "status (respond plat proc req) = 200 \<and> content (respond plat proc req) = Bytes bytes"
proof -
  have "static_lookup plat (static_root proc) (pathname req)
          = Found (static_root proc @ [''index.html'']) bytes"
    using assms(2,6) by (simp add: lookup_root find_index_def path_join_def)
  from serve_static_found[OF assms(1) assms(3) assms(4) assms(5) this] assms(1)
  show ?thesis by (simp add: respond_def file_response_def body_for_def)
qed

theorem get_root_index_witness:
  "fs demo (path_join (static_root demo_proc) [''index.html'']) = Some (File ''<h1>home</h1>'')
   \<and> \<not> is_conditional_get (get_req ''/'') \<and> header (get_req ''/'') ''range'' = None
   \<and> status (respond demo demo_proc (get_req ''/'')) = 200
   \<and> content (respond demo demo_proc (get_req ''/'')) = Bytes ''<h1>home</h1>''"
proof -
  have f: "fs demo (path_join (static_root demo_proc) [''index.html'']) = Some (File ''<h1>home</h1>'')"
    by (simp add: demo_root path_join_def demo_def demo_fs_def)
  show ?thesis
    using f get_req_plain[of "''/''"]
      get_root_index[of "get_req ''/''" demo demo_proc "''<h1>home</h1>''"]
    by (simp add: get_req_def)
qed

text \<open>
  As C1 is worded, for every GET request for \<^verbatim>\<open>/\<close>, it fails: the JSON parser is
  registered before the static layer and the route, so a GET for \<^verbatim>\<open>/\<close> that announces
  JSON and carries the body \<^verbatim>\<open>{\<close> is answered 400 with the framework's page.
\<close>

theorem get_root_counterexample:
  "meth (bad_json ''GET'' ''/'') = ''GET'' \<and> pathname (bad_json ''GET'' ''/'') = ''/''
   \<and> fs demo (path_join (static_root demo_proc) [''index.html'']) = Some (File ''<h1>home</h1>'')
   \<and> status (respond demo demo_proc (bad_json ''GET'' ''/'')) = 400
   \<and> content (respond demo demo_proc (bad_json ''GET'' ''/'')) = Page"
proof -
  have "fs demo (path_join (static_root demo_proc) [''index.html'']) = Some (File ''<h1>home</h1>'')"
    by (simp add: demo_root path_join_def demo_def demo_fs_def)
  then show ?thesis
    using demo_bad_json_status[of "''GET''" "''/''"]
    by (simp add: respond_def finalhandler_def body_for_def bad_json_def)
qed

text \<open>
  The conditions on the header fields are needed as well: send validates a found file
  against the request. On the sample platform, where every file has the ETag \<^verbatim>\<open>v1\<close>, a
  GET for \<^verbatim>\<open>/\<close> with \<^verbatim>\<open>If-None-Match: v1\<close> is answered 304 with no body, and one with
  \<^verbatim>\<open>Range: bytes=0-3\<close> is answered 206 with four bytes.
\<close>

lemma conditional_get_not_modified:
  "status (respond demo demo_proc ((get_req ''/'')\<lparr>req_headers := [(''if-none-match'', ''v1'')]\<rparr>)) = 304
   \<and> content (respond demo demo_proc ((get_req ''/'')\<lparr>req_headers := [(''if-none-match'', ''v1'')]\<rparr>)) = NoBody"
  by (simp add: respond_def serve_def app_def dispatch_use cors_def express_json_def
      express_static_def lookup_root find_index_def demo_root send_found_def is_conditional_get_def
      given_def header_def get_req_def demo_def demo_fs_def)

lemma range_get_partial:
  "status (respond demo demo_proc ((get_req ''/'')\<lparr>req_headers := [(''range'', ''bytes=0-3'')]\<rparr>)) = 206
   \<and> content (respond demo demo_proc ((get_req ''/'')\<lparr>req_headers := [(''range'', ''bytes=0-3'')]\<rparr>)) = Bytes ''<h1>''"
  by (simp add: respond_def serve_def app_def dispatch_use cors_def express_json_def
      express_static_def lookup_root find_index_def demo_root send_found_def is_conditional_get_def
      given_def header_def get_req_def demo_def demo_fs_def file_response_def body_for_def)

subsection \<open>C2: the verify page\<close>

text \<open>
  C2, as the code has it: a GET request for \<^verbatim>\<open>/verify\<close> whose body, if it is announced
  as JSON, is read and accepted by the JSON parser, and which carries no conditional field
  and no Range field, is answered with status 200 and the bytes of \<^verbatim>\<open>verify.html\<close> under
  the static root, provided that the static root has no entry named \<^verbatim>\<open>verify\<close> (the
  static layer is registered before the route and would answer with it), that
  \<^verbatim>\<open>verify.html\<close> is a regular file there, and that send accepts its absolute path.
\<close>

theorem get_verify_page:
  assumes "meth req = ''GET''" and "pathname req = ''/verify''"
    and "\<And>b. body req = Some b \<Longrightarrow> media_type req = Some ''application/json''
             \<Longrightarrow> refused plat req b = None \<and> json_ok plat b"
    and "\<not> is_conditional_get req" and "header req ''range'' = None"
    and "fs plat (path_join (static_root proc) [''verify'']) = None"
    and "vet plat ([] # path_join (static_root proc) [''verify.html'']) = None"
    and "fs plat (path_join (static_root proc) [''verify.html'']) = Some (File bytes)"
  shows "status (respond plat proc req) = 200 \<and> content (respond plat proc req) = Bytes bytes"
proof -
  have "static_lookup plat (static_root proc) (pathname req) = Missing"
    using assms(2,6) by (simp add: lookup_verify find_file_def path_join_def)
  from serve_static_missing[OF assms(1) assms(3) this] assms(1,2,7,8)
    send_found_whole[OF assms(4,5)]
  show ?thesis
    by (simp add: respond_def app_def dispatch_get route_match_def trailing_slash_def lower_def
        Let_def send_file_def static_root_def path_join_def file_response_def body_for_def)
qed

theorem get_verify_page_witness:
  "fs demo (path_join (static_root demo_proc) [''verify'']) = None
   \<and> vet demo ([] # path_join (static_root demo_proc) [''verify.html'']) = None
   \<and> fs demo (path_join (static_root demo_proc) [''verify.html'']) = Some (File ''<h1>verify</h1>'')
   \<and> status (respond demo demo_proc (get_req ''/verify'')) = 200
   \<and> content (respond demo demo_proc (get_req ''/verify'')) = Bytes ''<h1>verify</h1>''"
proof -
  have a: "fs demo (path_join (static_root demo_proc) [''verify'']) = None"
    by (simp add: demo_root path_join_def demo_def demo_fs_def)
  have b: "vet demo ([] # path_join (static_root demo_proc) [''verify.html'']) = None"
    by (simp add: demo_root path_join_def vet_def up_path_def contains_dotfile_def)
  have c: "fs demo (path_join (static_root demo_proc) [''verify.html'']) = Some (File ''<h1>verify</h1>'')"
    by (simp add: demo_root path_join_def demo_def demo_fs_def)
  show ?thesis
    using a b c get_req_plain[of "''/verify''"]
      get_verify_page[of "get_req ''/verify''" demo demo_proc "''<h1>verify</h1>''"]
    by (simp add: get_req_def)
qed

text \<open>
  As C2 is worded, for every GET request for \<^verbatim>\<open>/verify\<close>, it fails as C1 does: the
  request with the body \<^verbatim>\<open>{\<close> is answered 400 before the route is reached.
\<close>

theorem get_verify_counterexample:
  "meth (bad_json ''GET'' ''/verify'') = ''GET'' \<and> pathname (bad_json ''GET'' ''/verify'') = ''/verify''
   \<and> fs demo (path_join (static_root demo_proc) [''verify.html'']) = Some (File ''<h1>verify</h1>'')
   \<and> status (respond demo demo_proc (bad_json ''GET'' ''/verify'')) = 400
   \<and> content (respond demo demo_proc (bad_json ''GET'' ''/verify'')) = Page"
proof -
  have "fs demo (path_join (static_root demo_proc) [''verify.html'']) = Some (File ''<h1>verify</h1>'')"
    by (simp add: demo_root path_join_def demo_def demo_fs_def)
  then show ?thesis
    using demo_bad_json_status[of "''GET''" "''/verify''"]
    by (simp add: respond_def finalhandler_def body_for_def bad_json_def)
qed

text \<open>
  The static layer comes first: with a regular file named \<^verbatim>\<open>verify\<close> in the static
  root, a plain GET for \<^verbatim>\<open>/verify\<close> is answered with that file, not with the page. And
  \<^verbatim>\<open>res.sendFile\<close> validates like the static layer does: with \<^verbatim>\<open>If-None-Match: v1\<close> the
  route answers 304.
\<close>

lemma verify_shadowed_by_static:
  "content (respond (demo\<lparr>fs := demo_fs([''srv'', ''app'', ''src'', ''verify''] \<mapsto> File ''shadow'')\<rparr>)
              demo_proc (get_req ''/verify'')) = Bytes ''shadow''
   \<and> ran (demo\<lparr>fs := demo_fs([''srv'', ''app'', ''src'', ''verify''] \<mapsto> File ''shadow'')\<rparr>)
              demo_proc (get_req ''/verify'') = [CorsLayer, JsonLayer, StaticLayer]"
  by (simp add: respond_def ran_def serve_def app_def dispatch_use cors_def express_json_def
      express_static_def lookup_verify find_file_def demo_root send_found_def is_conditional_get_def
      given_def header_def get_req_def demo_def file_response_def body_for_def)

lemma verify_not_modified:
  "status (respond demo demo_proc ((get_req ''/verify'')\<lparr>req_headers := [(''if-none-match'', ''v1'')]\<rparr>)) = 304
   \<and> ran demo demo_proc ((get_req ''/verify'')\<lparr>req_headers := [(''if-none-match'', ''v1'')]\<rparr>)
       = [CorsLayer, JsonLayer, StaticLayer, RouteLayer ''/verify'']"
  by (simp add: respond_def ran_def serve_def app_def dispatch_use dispatch_get cors_def
      express_json_def express_static_def lookup_verify find_file_def demo_root route_match_def
      trailing_slash_def lower_def send_file_def vet_def up_path_def contains_dotfile_def
      send_found_def is_conditional_get_def given_def header_def get_req_def demo_def demo_fs_def
      demo_proc_def server_dirname_def path_join_def path_dirname_def Let_def)

subsection \<open>C3: static files\<close>

text \<open>
  C3, as the code has it: a GET request whose body, if it is announced as JSON, is read
  and accepted by the JSON parser, which carries no conditional field and no Range field,
  and for whose path the static layer's lookup under the static root finds a regular file,
  is answered with status 200, the bytes of that file, and the Content-Type that the MIME
  table gives for the extension of the file's name. The lookup finds the file, in
  particular, when the path has no percent-escape and no NUL, does not end in a slash, and
  its normalised parts, which send does not refuse, lead from the static root to a regular
  file of the file system.
\<close>

theorem static_file_served:
  assumes "meth req = ''GET''"
    and "\<And>b. body req = Some b \<Longrightarrow> media_type req = Some ''application/json''
             \<Longrightarrow> refused plat req b = None \<and> json_ok plat b"
    and "\<not> is_conditional_get req" and "header req ''range'' = None"
  shows "(\<forall>p bytes. static_lookup plat (static_root proc) (pathname req) = Found p bytes \<longrightarrow>
            status (respond plat proc req) = 200
          \<and> content (respond plat proc req) = Bytes bytes
          \<and> map_of (headers (respond plat proc req)) ''Content-Type''
              = Some (mime plat (extname (basename p))))
       \<and> (\<forall>segs bytes.
            CHR ''%'' \<notin> set (pathname req) \<and> CHR 0x00 \<notin> set (pathname req)
          \<and> \<not> trailing_slash (pathname req)
          \<and> normalize_parts [] (split_on CHR ''/'' (pathname req)) = Some segs \<and> segs \<noteq> []
          \<and> vet plat segs = None
          \<and> fs plat (path_join (static_root proc) segs) = Some (File bytes) \<longrightarrow>
            status (respond plat proc req) = 200
          \<and> content (respond plat proc req) = Bytes bytes
          \<and> map_of (headers (respond plat proc req)) ''Content-Type''
              = Some (mime plat (extname (last segs))))"
proof -
  have found: "status (respond plat proc req) = 200
          \<and> content (respond plat proc req) = Bytes bytes
          \<and> map_of (headers (respond plat proc req)) ''Content-Type''
              = Some (mime plat (extname (basename p)))"
    if "static_lookup plat (static_root proc) (pathname req) = Found p bytes" for p bytes
    using serve_static_found[OF assms that] assms(1)
    by (simp add: respond_def file_response_def body_for_def allow_origin_def)
  have plain: "status (respond plat proc req) = 200
          \<and> content (respond plat proc req) = Bytes bytes
          \<and> map_of (headers (respond plat proc req)) ''Content-Type''
              = Some (mime plat (extname (last segs)))"
    if "CHR ''%'' \<notin> set (pathname req)" and "CHR 0x00 \<notin> set (pathname req)"
      and "\<not> trailing_slash (pathname req)"
      and "normalize_parts [] (split_on CHR ''/'' (pathname req)) = Some segs" and "segs \<noteq> []"
      and "vet plat segs = None"
      and "fs plat (path_join (static_root proc) segs) = Some (File bytes)" for segs bytes
  proof -
    have "static_lookup plat (static_root proc) (pathname req) = Found (static_root proc @ segs) bytes"
      using that by (intro static_lookup_plain) (simp_all add: path_join_def)
    from found[OF this] that(5) show ?thesis by (simp add: basename_def)
  qed
  show ?thesis using found plain by blast
qed

theorem static_file_served_witness:
  "fs demo (path_join (static_root demo_proc) [''css'', ''site.css'']) = Some (File ''body {}'')
   \<and> normalize_parts [] (split_on CHR ''/'' ''/css/site.css'') = Some [''css'', ''site.css'']
   \<and> vet demo [''css'', ''site.css''] = None
   \<and> status (respond demo demo_proc (get_req ''/css/site.css'')) = 200
   \<and> content (respond demo demo_proc (get_req ''/css/site.css'')) = Bytes ''body {}''
   \<and> map_of (headers (respond demo demo_proc (get_req ''/css/site.css''))) ''Content-Type''
       = Some ''text/css; charset=UTF-8''"
proof -
  have a: "fs demo (path_join (static_root demo_proc) [''css'', ''site.css'']) = Some (File ''body {}'')"
    by (simp add: demo_root path_join_def demo_def demo_fs_def)
  have b: "normalize_parts [] (split_on CHR ''/'' ''/css/site.css'') = Some [''css'', ''site.css'']"
    by simp
  have c: "vet demo [''css'', ''site.css''] = None"
    by (simp add: vet_def up_path_def contains_dotfile_def)
  have d: "mime demo (extname (last [''css'', ''site.css''])) = ''text/css; charset=UTF-8''"
    by (simp add: demo_def)
  have e: "pathname (get_req ''/css/site.css'') = ''/css/site.css''"
    by (simp add: get_req_def)
  have "CHR ''%'' \<notin> set (pathname (get_req ''/css/site.css''))
      \<and> CHR 0x00 \<notin> set (pathname (get_req ''/css/site.css''))
      \<and> \<not> trailing_slash (pathname (get_req ''/css/site.css''))
      \<and> normalize_parts [] (split_on CHR ''/'' (pathname (get_req ''/css/site.css'')))
          = Some [''css'', ''site.css'']
      \<and> [''css'', ''site.css''] \<noteq> []
      \<and> vet demo [''css'', ''site.css''] = None
      \<and> fs demo (path_join (static_root demo_proc) [''css'', ''site.css'']) = Some (File ''body {}'')"
    using a c by (simp add: e trailing_slash_def)
  moreover have
    "\<forall>segs bytes.
        CHR ''%'' \<notin> set (pathname (get_req ''/css/site.css''))
      \<and> CHR 0x00 \<notin> set (pathname (get_req ''/css/site.css''))
      \<and> \<not> trailing_slash (pathname (get_req ''/css/site.css''))
      \<and> normalize_parts [] (split_on CHR ''/'' (pathname (get_req ''/css/site.css''))) = Some segs
      \<and> segs \<noteq> []
      \<and> vet demo segs = None
      \<and> fs demo (path_join (static_root demo_proc) segs) = Some (File bytes) \<longrightarrow>
        status (respond demo demo_proc (get_req ''/css/site.css'')) = 200
      \<and> content (respond demo demo_proc (get_req ''/css/site.css'')) = Bytes bytes
      \<and> map_of (headers (respond demo demo_proc (get_req ''/css/site.css''))) ''Content-Type''
          = Some (mime demo (extname (last segs)))"
    using static_file_served[of "get_req ''/css/site.css''" demo demo_proc] get_req_plain[of "''/css/site.css''"]
    by (simp add: get_req_def)
  ultimately have
    "status (respond demo demo_proc (get_req ''/css/site.css'')) = 200
      \<and> content (respond demo demo_proc (get_req ''/css/site.css'')) = Bytes ''body {}''
      \<and> map_of (headers (respond demo demo_proc (get_req ''/css/site.css''))) ''Content-Type''
          = Some (mime demo (extname (last [''css'', ''site.css''])))"
    by blast
  with a b c d show ?thesis by simp
qed

text \<open>
  As C3 is worded, for every GET request for an existing file, it fails: the same request
  for the style sheet, with the body \<^verbatim>\<open>{\<close> announced as JSON, is answered 400.
\<close>

theorem static_file_counterexample:
  "meth (bad_json ''GET'' ''/css/site.css'') = ''GET''
   \<and> fs demo (path_join (static_root demo_proc) [''css'', ''site.css'']) = Some (File ''body {}'')
   \<and> static_lookup demo (static_root demo_proc) (pathname (bad_json ''GET'' ''/css/site.css''))
       = Found [''srv'', ''app'', ''src'', ''css'', ''site.css''] ''body {}''
   \<and> status (respond demo demo_proc (bad_json ''GET'' ''/css/site.css'')) = 400
   \<and> content (respond demo demo_proc (bad_json ''GET'' ''/css/site.css'')) = Page"
proof -
  have "fs demo (path_join (static_root demo_proc) [''css'', ''site.css'']) = Some (File ''body {}'')"
    by (simp add: demo_root path_join_def demo_def demo_fs_def)
  then show ?thesis
    using demo_lookup_css demo_bad_json_status[of "''GET''" "''/css/site.css''"]
    by (simp add: respond_def finalhandler_def body_for_def bad_json_def)
qed

text \<open>
  The lookup is not the file system alone: a file that exists under the static root but
  whose path the dotfile rule ignores is not found, and the request ends as 404.
\<close>

lemma dotfile_not_served:
  "fs demo (path_join (static_root demo_proc) [''.secret'']) = Some (File ''key'')
   \<and> static_lookup demo (static_root demo_proc) ''/.secret'' = Missing
   \<and> status (respond demo demo_proc (get_req ''/.secret'')) = 404"
proof -
  have a: "fs demo (path_join (static_root demo_proc) [''.secret'']) = Some (File ''key'')"
    by (simp add: demo_root path_join_def demo_def demo_fs_def)
  have b: "static_lookup demo (static_root demo_proc) ''/.secret'' = Missing"
    by (simp add: static_lookup_def decode_path_def trailing_slash_def vet_def up_path_def
        relative_parts_def contains_dotfile_def demo_def)
  have "status (respond demo demo_proc (get_req ''/.secret'')) = 404"
    using serve_static_missing[of "get_req ''/.secret''" demo demo_proc] b
    by (simp add: get_req_def respond_def app_def dispatch_get route_match_def trailing_slash_def
        lower_def Let_def finalhandler_def)
  with a b show ?thesis by simp
qed

subsection \<open>C4: paths that match nothing\<close>

text \<open>
  C4, as the code has it: a GET request whose body, if it is announced as JSON, is read
  and accepted by the JSON parser, whose path matches neither route (the router ignores case and one
  final slash) and for which the static layer's lookup finds neither a file nor a
  directory, is answered with status 404 and the framework's own page; no route handler
  runs, and the application has no error page of its own.
\<close>

theorem unknown_path_404:
  assumes "meth req = ''GET''"
    and "\<And>b. body req = Some b \<Longrightarrow> media_type req = Some ''application/json''
             \<Longrightarrow> refused plat req b = None \<and> json_ok plat b"
    and "\<not> route_match ''/'' (pathname req)" and "\<not> route_match ''/verify'' (pathname req)"
    and "static_lookup plat (static_root proc) (pathname req) = Missing"
  shows "status (respond plat proc req) = 404
       \<and> content (respond plat proc req) = Page
       \<and> ran plat proc req = [CorsLayer, JsonLayer, StaticLayer]"
  using serve_static_missing[OF assms(1) assms(2) assms(5)] assms(1,3,4)
  by (simp add: respond_def ran_def app_def dispatch_get finalhandler_def body_for_def Let_def)

theorem unknown_path_404_witness:
  "\<not> route_match ''/'' ''/missing'' \<and> \<not> route_match ''/verify'' ''/missing''
   \<and> static_lookup demo (static_root demo_proc) ''/missing'' = Missing
   \<and> status (respond demo demo_proc (get_req ''/missing'')) = 404
   \<and> content (respond demo demo_proc (get_req ''/missing'')) = Page
   \<and> ran demo demo_proc (get_req ''/missing'') = [CorsLayer, JsonLayer, StaticLayer]"
proof -
  have r: "\<not> route_match ''/'' ''/missing'' \<and> \<not> route_match ''/verify'' ''/missing''"
    by (simp add: route_match_def trailing_slash_def lower_def)
  show ?thesis
    using r demo_lookup_missing unknown_path_404[of "get_req ''/missing''" demo demo_proc]
    by (simp add: get_req_def)
qed

text \<open>
  As C4 is worded, for every GET request for a path that is neither \<^verbatim>\<open>/\<close> nor
  \<^verbatim>\<open>/verify\<close> and matches no file, it fails: the request for \<^verbatim>\<open>/missing\<close> with the body
  \<^verbatim>\<open>{\<close> announced as JSON is answered 400, not 404.
\<close>

theorem unknown_path_counterexample:
  "meth (bad_json ''GET'' ''/missing'') = ''GET''
   \<and> pathname (bad_json ''GET'' ''/missing'') \<noteq> ''/''
   \<and> pathname (bad_json ''GET'' ''/missing'') \<noteq> ''/verify''
   \<and> static_lookup demo (static_root demo_proc) (pathname (bad_json ''GET'' ''/missing'')) = Missing
   \<and> status (respond demo demo_proc (bad_json ''GET'' ''/missing'')) = 400"
  using demo_lookup_missing demo_bad_json_status[of "''GET''" "''/missing''"]
  by (simp add: respond_def finalhandler_def bad_json_def)

text \<open>
  The two other conditions of the theorem are needed as well. The path \<^verbatim>\<open>/verify/\<close> is
  not \<^verbatim>\<open>/verify\<close> and names no file, yet the route matches it and the page is sent; the
  path \<^verbatim>\<open>/css\<close> names a directory, no file, and is redirected.
\<close>

lemma verify_slash_matches_route:
  "static_lookup demo (static_root demo_proc) ''/verify/'' = Missing
   \<and> status (respond demo demo_proc (get_req ''/verify/'')) = 200
   \<and> content (respond demo demo_proc (get_req ''/verify/'')) = Bytes ''<h1>verify</h1>''"
proof -
  have p: "static_root demo_proc = [''srv'', ''app'', ''src'']"
    by (simp add: demo_proc_def static_root_def server_dirname_def path_join_def path_dirname_def)
  have a: "static_lookup demo (static_root demo_proc) ''/verify/'' = Missing"
    by (simp add: p static_lookup_def decode_path_def trailing_slash_def vet_def up_path_def
        relative_parts_def contains_dotfile_def find_index_def demo_def demo_fs_def)
  have "vet demo ([] # [''srv'', ''app'', ''src'', ''verify.html'']) = None"
    by (simp add: vet_def up_path_def contains_dotfile_def)
  then have
    "status (respond demo demo_proc (get_req ''/verify/'')) = 200
     \<and> content (respond demo demo_proc (get_req ''/verify/'')) = Bytes ''<h1>verify</h1>''"
    using serve_static_missing[of "get_req ''/verify/''" demo demo_proc] a
    by (simp add: get_req_def respond_def app_def dispatch_get route_match_def trailing_slash_def
        lower_def Let_def send_file_def send_found_def is_conditional_get_def given_def header_def
        file_response_def body_for_def demo_def demo_fs_def
        demo_proc_def server_dirname_def path_join_def path_dirname_def)
  with a show ?thesis by simp
qed

lemma directory_redirected:
  "static_lookup demo (static_root demo_proc) ''/css'' = Directory
   \<and> status (respond demo demo_proc (get_req ''/css'')) = 301"
proof -
  have p: "static_root demo_proc = [''srv'', ''app'', ''src'']"
    by (simp add: demo_proc_def static_root_def server_dirname_def path_join_def path_dirname_def)
  have a: "static_lookup demo (static_root demo_proc) ''/css'' = Directory"
    by (simp add: p static_lookup_def decode_path_def trailing_slash_def vet_def up_path_def
        relative_parts_def contains_dotfile_def find_file_def demo_def demo_fs_def)
  then show ?thesis
    by (simp add: respond_def serve_def app_def dispatch_use cors_def express_json_def
        express_static_def get_req_def body_for_def)
qed

subsection \<open>C5: the cross-origin header\<close>

text \<open>
  C5: whatever the request (any method, any path, any body) and whatever the platform,
  the response carries the header \<^verbatim>\<open>Access-Control-Allow-Origin: *\<close>. The cors layer sets
  it first, on a preflight as on any other request, and no later layer and no error path
  drops a header.
\<close>

theorem cors_header_always:
  "allow_origin \<in> set (headers (respond plat proc req))"
proof (cases "meth req = ''OPTIONS''")
  case True
  then show ?thesis
    by (simp add: respond_def serve_def app_def dispatch_use cors_def)
next
  case False
  have rest: "allow_origin \<in> set (headers (snd (dispatch (drop 1 (app plat proc)) req [allow_origin])))"
  proof (rule dispatch_carries)
    fix l hs
    assume "l \<in> set (drop 1 (app plat proc))" and "allow_origin \<in> set hs"
    then show "carries allow_origin (handler l req hs)"
      by (auto simp: app_def app_use_def app_get_def carries_json carries_static carries_send_file)
  qed simp
  with False show ?thesis
    by (simp add: respond_def serve_def app_def dispatch_use cors_def Let_def)
qed

theorem cors_header_always_witness:
  "(''Access-Control-Allow-Origin'', ''*'') \<in> set (headers (respond demo demo_proc (bad_json ''DELETE'' ''/nowhere'')))
   \<and> (''Access-Control-Allow-Origin'', ''*'') \<in> set (headers (respond demo demo_proc (bad_json ''OPTIONS'' ''/'')))
   \<and> (''Access-Control-Allow-Origin'', ''*'') \<in> set (headers (respond demo demo_proc (get_req ''/css'')))"
  using cors_header_always[of demo demo_proc "bad_json ''DELETE'' ''/nowhere''"]
    cors_header_always[of demo demo_proc "bad_json ''OPTIONS'' ''/''"]
    cors_header_always[of demo demo_proc "get_req ''/css''"]
  by (simp add: allow_origin_def)

subsection \<open>C6: the port\<close>

text \<open>
  C6, as the code has it: when the environment the server was started with sets PORT to
  \<^verbatim>\<open>4321\<close>, the server binds TCP port 4321 (the \<^verbatim>\<open>.env\<close> file overrides nothing); when
  \<^verbatim>\<open>process.env\<close> has no PORT after \<^verbatim>\<open>dotenv.config()\<close>, that is, when neither the
  environment nor the \<^verbatim>\<open>.env\<close> file of the working directory defines it, the server
  binds TCP port 3000.
\<close>

theorem port_from_environment:
  "(environ proc ''PORT'' = Some ''4321'' \<longrightarrow> bound plat proc = Tcp 4321)
   \<and> (dotenv_config plat proc ''PORT'' = None \<longrightarrow> bound plat proc = Tcp 3000)"
proof -
  have "dotenv_config plat proc ''PORT'' = Some ''4321''" if "environ proc ''PORT'' = Some ''4321''"
    using that by (simp add: dotenv_config_def split: option.split node.split)
  then show ?thesis
    by (simp add: bound_def PORT_def env_get_def js_or_def listen_def digit_of_def tcp_port_def)
qed

theorem port_from_environment_witness:
  "environ (demo_proc\<lparr>environ := [''PORT'' \<mapsto> ''4321'']\<rparr>) ''PORT'' = Some ''4321''
   \<and> bound demo (demo_proc\<lparr>environ := [''PORT'' \<mapsto> ''4321'']\<rparr>) = Tcp 4321
   \<and> environ demo_proc ''PORT'' = None
   \<and> dotenv_config demo demo_proc ''PORT'' = None
   \<and> bound demo demo_proc = Tcp 3000"
proof -
  have a: "dotenv_config demo demo_proc ''PORT'' = None"
    by (simp add: dotenv_config_def demo_def demo_fs_def demo_proc_def)
  show ?thesis
    using a port_from_environment[of "demo_proc\<lparr>environ := [''PORT'' \<mapsto> ''4321'']\<rparr>" demo]
      port_from_environment[of demo_proc demo]
    by (simp add: demo_proc_def)
qed

text \<open>
  As C6 is worded, its second half fails: line 7 loads the \<^verbatim>\<open>.env\<close> file of the working
  directory into \<^verbatim>\<open>process.env\<close> before line 26 reads it. Started in \<^verbatim>\<open>/home/dev\<close>, whose
  \<^verbatim>\<open>.env\<close> file defines \<^verbatim>\<open>PORT=5000\<close>, with no PORT in the environment, the server binds
  port 5000.
\<close>

theorem port_absent_counterexample:
  "environ (demo_proc\<lparr>cwd := [''home'', ''dev'']\<rparr>) ''PORT'' = None
   \<and> fs demo (cwd (demo_proc\<lparr>cwd := [''home'', ''dev'']\<rparr>) @ [''.env'']) = Some (File ''PORT=5000'')
   \<and> bound demo (demo_proc\<lparr>cwd := [''home'', ''dev'']\<rparr>) = Tcp 5000"
  by (simp add: bound_def PORT_def env_get_def js_or_def listen_def digit_of_def tcp_port_def
      dotenv_config_def demo_def demo_fs_def demo_proc_def)

subsection \<open>C7: a PORT that is not a number\<close>

text \<open>
  C7, as the code has it: the resolved port is the default 3000 when PORT is unset or
  is the empty string; every other value of PORT, whether or not it reads as a number, is
  the resolved port as it stands, and is what \<^verbatim>\<open>listen\<close> is given.
\<close>

theorem port_default_only_when_falsy:
  "(dotenv_config plat proc ''PORT'' = None \<or> dotenv_config plat proc ''PORT'' = Some []
      \<longrightarrow> PORT plat proc = Num 3000)
   \<and> (\<forall>s. dotenv_config plat proc ''PORT'' = Some s \<and> s \<noteq> [] \<longrightarrow> PORT plat proc = Str s)"
  by (auto simp: PORT_def env_get_def js_or_def)

theorem port_default_only_when_falsy_witness:
  "dotenv_config demo (demo_proc\<lparr>environ := [''PORT'' \<mapsto> []]\<rparr>) ''PORT'' = Some []
   \<and> PORT demo (demo_proc\<lparr>environ := [''PORT'' \<mapsto> []]\<rparr>) = Num 3000
   \<and> dotenv_config demo (demo_proc\<lparr>environ := [''PORT'' \<mapsto> ''8080'']\<rparr>) ''PORT'' = Some ''8080''
   \<and> PORT demo (demo_proc\<lparr>environ := [''PORT'' \<mapsto> ''8080'']\<rparr>) = Str ''8080''"
proof -
  have a: "dotenv_config demo (demo_proc\<lparr>environ := [''PORT'' \<mapsto> v]\<rparr>) ''PORT'' = Some v" for v
    by (simp add: dotenv_config_def demo_def demo_fs_def demo_proc_def)
  show ?thesis
    using a[of "[]"] a[of "''8080''"]
      port_default_only_when_falsy[of demo "demo_proc\<lparr>environ := [''PORT'' \<mapsto> []]\<rparr>"]
      port_default_only_when_falsy[of demo "demo_proc\<lparr>environ := [''PORT'' \<mapsto> ''8080'']\<rparr>"]
    by simp
qed

text \<open>
  As C7 is worded it fails: with \<^verbatim>\<open>PORT=abc\<close> the resolved port is the string
  \<^verbatim>\<open>abc\<close>, not 3000; line 26 tests truthiness, never whether the value is a number.
  (On the sample platform \<^verbatim>\<open>listen\<close> then opens a pipe of that name.)
\<close>

theorem port_non_numeric_counterexample:
  "environ (demo_proc\<lparr>environ := [''PORT'' \<mapsto> ''abc'']\<rparr>) ''PORT'' = Some ''abc''
   \<and> decimal 0 ''abc'' = None
   \<and> PORT demo (demo_proc\<lparr>environ := [''PORT'' \<mapsto> ''abc'']\<rparr>) = Str ''abc''
   \<and> PORT demo (demo_proc\<lparr>environ := [''PORT'' \<mapsto> ''abc'']\<rparr>) \<noteq> Num 3000
   \<and> bound demo (demo_proc\<lparr>environ := [''PORT'' \<mapsto> ''abc'']\<rparr>) \<noteq> Tcp 3000"
  by (simp add: bound_def PORT_def env_get_def js_or_def listen_def digit_of_def
      dotenv_config_def demo_def demo_fs_def demo_proc_def)

subsection \<open>C8: a body that is not JSON\<close>

text \<open>
  C8, as the code has it: a request of any method but OPTIONS that announces
  \<^verbatim>\<open>application/json\<close> and carries a body the JSON parser rejects is answered with a
  status of the 400 class, raised by the JSON layer (400 itself unless the body was given
  up before parsing, which is 413 or 415 or 400): only the cors layer and the JSON layer
  run, and no route handler does.
\<close>

theorem malformed_json_client_error:
  assumes "meth req \<noteq> ''OPTIONS''" and "body req = Some b"
    and "media_type req = Some ''application/json''" and "\<not> json_ok plat b"
  shows "400 \<le> status (respond plat proc req) \<and> status (respond plat proc req) < 500
       \<and> (refused plat req b = None \<longrightarrow> status (respond plat proc req) = 400)
       \<and> ran plat proc req = [CorsLayer, JsonLayer]
       \<and> RouteLayer pat \<notin> set (ran plat proc req)"
  using serve_rejected[OF assms] rejected_client_error[of plat req b]
  by (simp add: respond_def ran_def finalhandler_def)

text \<open>
  An instance is a GET for \<^verbatim>\<open>/verify\<close>: without the body the route of line 22 answers
  it, with the body \<^verbatim>\<open>{\<close> the route does not run.
\<close>

theorem malformed_json_client_error_witness:
  "\<not> json_ok demo ''{''
   \<and> refused demo (bad_json ''GET'' ''/verify'') ''{'' = None
   \<and> status (respond demo demo_proc (bad_json ''GET'' ''/verify'')) = 400
   \<and> ran demo demo_proc (bad_json ''GET'' ''/verify'') = [CorsLayer, JsonLayer]
   \<and> RouteLayer ''/verify'' \<notin> set (ran demo demo_proc (bad_json ''GET'' ''/verify''))"
proof -
  have a: "\<not> json_ok demo ''{''" by (simp add: demo_def)
  have b: "refused demo (bad_json ''GET'' ''/verify'') ''{'' = None" by (simp add: demo_def)
  show ?thesis
    using a b malformed_json_client_error[of "bad_json ''GET'' ''/verify''" "''{''" demo demo_proc "''/verify''"]
    by (simp add: bad_json_def)
qed

text \<open>
  As C8 is worded, for every request, it fails on OPTIONS: the cors layer, registered
  before the parser, answers every OPTIONS request as a preflight with 204, and the body is
  never parsed.
\<close>

theorem malformed_json_counterexample:
  "body (bad_json ''OPTIONS'' ''/verify'') = Some ''{''
   \<and> media_type (bad_json ''OPTIONS'' ''/verify'') = Some ''application/json''
   \<and> \<not> json_ok demo ''{''
   \<and> status (respond demo demo_proc (bad_json ''OPTIONS'' ''/verify'')) = 204
   \<and> ran demo demo_proc (bad_json ''OPTIONS'' ''/verify'') = [CorsLayer]"
  by (simp add: respond_def ran_def serve_def app_def dispatch_use cors_def bad_json_def demo_def)

text \<open>
  The status is not always 400: a body over the limit is given up with 413 before the
  parser sees that it is malformed.
\<close>

lemma oversized_body_413:
  "status (respond (demo\<lparr>refused := (\<lambda>req b. Some TooLarge)\<rparr>) demo_proc (bad_json ''POST'' ''/'')) = 413"
  using serve_rejected[of "bad_json ''POST'' ''/''" "''{''" "demo\<lparr>refused := (\<lambda>req b. Some TooLarge)\<rparr>" demo_proc]
  by (simp add: respond_def finalhandler_def bad_json_def demo_def)

subsection \<open>C9: the static root\<close>

text \<open>
  C9: the static root is the directory of \<^verbatim>\<open>server.js\<close> joined with \<^verbatim>\<open>src\<close> (for
  \<^verbatim>\<open>server.js\<close> at \<open>d @ [f]\<close> it is \<open>d @ [''src'']\<close>); two runs
  of the same installation have the same static root, whatever their working directories
  and environments. (The path is absolute, so \<^verbatim>\<open>path.join\<close>, and \<^verbatim>\<open>path.resolve\<close> inside
  serve-static, never consult the working directory.)
\<close>

theorem static_root_fixed:
  "static_root proc = path_join (path_dirname (module_file proc)) [''src'']
   \<and> (module_file proc' = module_file proc \<longrightarrow> static_root proc' = static_root proc)
   \<and> (module_file proc = d @ [f] \<longrightarrow> static_root proc = d @ [''src''])"
  by (simp add: static_root_def server_dirname_def path_join_def path_dirname_def)

theorem static_root_fixed_witness:
  "cwd (demo_proc\<lparr>cwd := [''home'', ''dev'']\<rparr>) \<noteq> cwd demo_proc
   \<and> module_file (demo_proc\<lparr>cwd := [''home'', ''dev'']\<rparr>) = module_file demo_proc
   \<and> static_root (demo_proc\<lparr>cwd := [''home'', ''dev'']\<rparr>) = static_root demo_proc
   \<and> static_root demo_proc = [''srv'', ''app'', ''src'']"
  using static_root_fixed[of demo_proc "demo_proc\<lparr>cwd := [''home'', ''dev'']\<rparr>" "[''srv'', ''app'']" "''server.js''"]
  by (simp add: demo_proc_def path_join_def path_dirname_def)

text \<open>
  The working directory is not without influence on the server: it decides which
  \<^verbatim>\<open>.env\<close> file is read, and so the port. But no response depends on it.
\<close>

lemma respond_ignores_cwd:
  "respond plat (proc\<lparr>cwd := d\<rparr>) req = respond plat proc req"
  by (simp add: respond_def serve_def app_def static_root_def server_dirname_def)

subsection \<open>C10: the parser runs before the static layer\<close>

text \<open>
  C10: the JSON layer is registered before the static layer, so a GET request for a file
  that the static layer would find, announcing \<^verbatim>\<open>application/json\<close> with a body the
  parser rejects, is answered with a status of the 400 class (400 itself unless the body
  was given up before parsing) and not with the bytes of the file; the static layer does
  not run.
\<close>

theorem json_before_static:
  assumes "meth req = ''GET''"
    and "static_lookup plat (static_root proc) (pathname req) = Found p bytes"
    and "body req = Some b" and "media_type req = Some ''application/json''" and "\<not> json_ok plat b"
  shows "map lid (app plat proc) = [CorsLayer, JsonLayer, StaticLayer, RouteLayer ''/'', RouteLayer ''/verify'']
       \<and> 400 \<le> status (respond plat proc req) \<and> status (respond plat proc req) < 500
       \<and> (refused plat req b = None \<longrightarrow> status (respond plat proc req) = 400)
       \<and> content (respond plat proc req) \<noteq> Bytes bytes
       \<and> StaticLayer \<notin> set (ran plat proc req)"
proof -
  have "meth req \<noteq> ''OPTIONS''" using assms(1) by simp
  from serve_rejected[OF this assms(3-5)] assms(1) rejected_client_error[of plat req b]
  show ?thesis
    by (simp add: respond_def ran_def finalhandler_def body_for_def app_def app_use_def app_get_def)
qed

theorem json_before_static_witness:
  "static_lookup demo (static_root demo_proc) ''/css/site.css''
     = Found [''srv'', ''app'', ''src'', ''css'', ''site.css''] ''body {}''
   \<and> \<not> json_ok demo ''{''
   \<and> status (respond demo demo_proc (bad_json ''GET'' ''/css/site.css'')) = 400
   \<and> content (respond demo demo_proc (bad_json ''GET'' ''/css/site.css'')) \<noteq> Bytes ''body {}''
   \<and> StaticLayer \<notin> set (ran demo demo_proc (bad_json ''GET'' ''/css/site.css''))"
proof -
  have a: "\<not> json_ok demo ''{''" by (simp add: demo_def)
  have b: "refused demo (bad_json ''GET'' ''/css/site.css'') ''{'' = None" by (simp add: demo_def)
  show ?thesis
    using a b demo_lookup_css
      json_before_static[of "bad_json ''GET'' ''/css/site.css''" demo demo_proc
        "[''srv'', ''app'', ''src'', ''css'', ''site.css'']" "''body {}''" "''{''"]
    by (simp add: bad_json_def)
qed

end
